theory Spec2Isabelle
  imports Main
begin

section \<open>Python values and exceptions\<close>

text \<open>
  The fields of a wallpaper record come out of \<^verbatim>\<open>response.json()\<close>. The model keeps
  the scalar JSON values (null, booleans, integers, strings); a \<^typ>\<open>char\<close> stands for
  one character of a Python \<^verbatim>\<open>str\<close>.
\<close>

datatype pyval = PNone | PBool bool | PInt int | PStr string

text \<open>Truth value of a Python object, as tested by \<^verbatim>\<open>if url:\<close>.\<close>

fun truthy :: "pyval \<Rightarrow> bool" where
  "truthy PNone = False"
| "truthy (PBool b) = b"
| "truthy (PInt n) = (n \<noteq> 0)"
| "truthy (PStr s) = (s \<noteq> [])"

text \<open>\<^verbatim>\<open>x == 0\<close> for a JSON scalar: \<^verbatim>\<open>False == 0\<close> holds in Python.\<close>

fun eq_zero :: "pyval \<Rightarrow> bool" where
  "eq_zero PNone = False"
| "eq_zero (PBool b) = (\<not> b)"
| "eq_zero (PInt n) = (n = 0)"
| "eq_zero (PStr s) = False"

fun digits :: "nat \<Rightarrow> string" where
  "digits n =
     (if n < 10 then [''0123456789'' ! n]
      else digits (n div 10) @ [''0123456789'' ! (n mod 10)])"

declare digits.simps [simp del]

text \<open>\<^verbatim>\<open>str(x)\<close>, which is what an f-string applies to \<^verbatim>\<open>{x}\<close>.\<close>

fun py_str :: "pyval \<Rightarrow> string" where
  "py_str PNone = ''None''"
| "py_str (PBool b) = (if b then ''True'' else ''False'')"
| "py_str (PInt n) = (if n < 0 then CHR ''-'' # digits (nat (- n)) else digits (nat n))"
| "py_str (PStr s) = s"

text \<open>Every exception carries the text that \<^verbatim>\<open>str(e)\<close> gives.\<close>

datatype exc =
    RequestException string
  | JSONDecodeError string
  | OSError string
  | IndexError string
  | OtherException string

fun exc_msg :: "exc \<Rightarrow> string" where
  "exc_msg (RequestException m) = m"
| "exc_msg (JSONDecodeError m) = m"
| "exc_msg (OSError m) = m"
| "exc_msg (IndexError m) = m"
| "exc_msg (OtherException m) = m"

text \<open>
  A statement either completes in a new state or raises; the mutations made before the
  raise stay, so the state at the raise is kept.
\<close>

datatype 'st outcome = Done 'st | Raised exc 'st

fun state_of :: "'st outcome \<Rightarrow> 'st" where
  "state_of (Done s) = s"
| "state_of (Raised e s) = s"

text \<open>\<^verbatim>\<open>for x in xs: body\<close>, left at the first exception that escapes the body.\<close>

primrec for_each :: "'a list \<Rightarrow> ('a \<Rightarrow> 'st \<Rightarrow> 'st outcome) \<Rightarrow> 'st \<Rightarrow> 'st outcome" where
  "for_each [] body s = Done s"
| "for_each (x # xs) body s =
     (case body x s of
        Done s' \<Rightarrow> for_each xs body s'
      | Raised e s' \<Rightarrow> Raised e s')"

text \<open>
  Python list indexing: an index from \<open>-len\<close> to \<open>-1\<close> counts from the end, anything
  outside \<open>-len .. len-1\<close> raises \<^verbatim>\<open>IndexError\<close> (here \<open>None\<close>).
\<close>

definition norm_index :: "nat \<Rightarrow> int \<Rightarrow> nat option" where
  "norm_index n i =
     (if 0 \<le> i \<and> i < int n then Some (nat i)
      else if i < 0 \<and> - int n \<le> i then Some (nat (int n + i))
      else None)"

definition py_index :: "'a list \<Rightarrow> int \<Rightarrow> 'a option" where
  "py_index xs i = map_option (\<lambda>k. xs ! k) (norm_index (length xs) i)"

section \<open>Data of the application\<close>

text \<open>One element of the \<^verbatim>\<open>data\<close> array: a dict from field names to values.\<close>

type_synonym wallpaper = "string \<rightharpoonup> pyval"

text \<open>\<^verbatim>\<open>d.get(k)\<close> and \<^verbatim>\<open>d.get(k, default)\<close>.\<close>

definition dict_get :: "wallpaper \<Rightarrow> string \<Rightarrow> pyval" where
  "dict_get d k = (case d k of None \<Rightarrow> PNone | Some v \<Rightarrow> v)"

definition dict_get_default :: "wallpaper \<Rightarrow> string \<Rightarrow> pyval \<Rightarrow> pyval" where
  "dict_get_default d k dflt = (case d k of None \<Rightarrow> dflt | Some v \<Rightarrow> v)"

text \<open>
  The parsed body of the listing endpoint, an object with the keys \<^verbatim>\<open>code\<close>,
  \<^verbatim>\<open>msg\<close> and \<^verbatim>\<open>data\<close>, each of which may be missing; \<^verbatim>\<open>data\<close> is an array of
  objects.
\<close>

record body =
  b_code :: "pyval option"
  b_msg :: "pyval option"
  b_data :: "wallpaper list option"

type_synonym bytes = "char list"

datatype pixmap = Pixmap bytes | Scaled300 pixmap

text \<open>
  The text or picture of one of the three preview labels. The constructors stand for the
  literals of the source: \<open>Blank\<close> a fresh \<^verbatim>\<open>QLabel()\<close>, \<open>Loading\<close> the "loading"
  text, \<open>NoData\<close> the "no data" text, \<open>InvalidUrl\<close> the "URL invalid" text,
  \<open>NoWallpaper\<close> the "no wallpaper" text, \<open>LoadFailed m\<close> the "loading failed: m..."
  text, \<open>Picture p\<close> a pixmap.
\<close>

datatype label = Blank | Loading | NoData | InvalidUrl | NoWallpaper | LoadFailed string | Picture pixmap

text \<open>An \<^verbatim>\<open>ImageDownloader\<close> thread: its slot index, its URL, and whether it runs.\<close>

record thread =
  t_index :: int
  t_url :: pyval
  t_running :: bool

datatype level = Information | Warning | Critical

text \<open>
  The texts of the message boxes, in the order of the source: "already the first page",
  "no more wallpapers", "the API returned an error: msg" (\<open>None\<close> when the default
  "unknown error" is shown), "cannot connect to the wallpaper API: e", "the API returned
  invalid JSON", "no wallpaper data to download", "downloaded n wallpapers to path",
  "no wallpaper was downloaded, check the network connection or the download path".
\<close>

datatype message =
    AlreadyFirstPage
  | NoMoreWallpapers
  | ApiReturnedError "string option"
  | CannotConnect string
  | InvalidJson
  | NoDataToDownload
  | Downloaded nat string
  | NothingDownloaded

datatype dialog = Dialog level message

text \<open>
  The attributes of \<^verbatim>\<open>WallpaperDownloaderApp\<close> that the handlers read or write. The four
  information labels hold the text after their fixed prefix, \<open>page_label\<close> the number it
  shows. \<open>dialogs\<close> lists the message boxes shown so far, \<open>printed\<close> the lines printed
  (identifier and error of a failed download), \<open>files\<close> the files on disk.
\<close>

record app =
  current_page :: int
  wallpaper_data :: "wallpaper list"
  image_threads :: "thread list"
  download_path :: string
  sort_combo :: string
  page_label :: int
  pic_labels :: "label list"
  name_label :: string
  author_label :: string
  source_label :: string
  desc_label :: string
  location_edit :: string
  dialogs :: "dialog list"
  printed :: "(string \<times> string) list"
  files :: "string \<rightharpoonup> bytes"

definition SOURCES :: "string list" where
  "SOURCES =
     [''Artand'', ''Smartisan'', ''Unsplash'', ''Minimography'', ''Pexels'',
      ''Magdeleine'', ''Fancycrave'', ''Snapwiresnaps'', ''Memento'',
      [CHR 0xE7, CHR 0xBA, CHR 0xB9, CHR 0xE7, CHR 0x90, CHR 0x86, CHR 0xE4, CHR 0xB8,
       CHR 0x8E, CHR 0xE6, CHR 0x9D, CHR 0x90, CHR 0xE8, CHR 0xB4, CHR 0xA8, CHR 0xE5,
       CHR 0xA3, CHR 0x81, CHR 0xE7, CHR 0xBA, CHR 0xB8],
      [CHR 0xE5, CHR 0xA3, CHR 0x81, CHR 0xE7, CHR 0xBA, CHR 0xB8, CHR 0xE6, CHR 0x91,
       CHR 0x84, CHR 0xE5, CHR 0xBD, CHR 0xB1, CHR 0xE5, CHR 0xA4, CHR 0xA7, CHR 0xE8,
       CHR 0xB5, CHR 0x9B, CHR 0xE7, CHR 0xB2, CHR 0xBE, CHR 0xE9, CHR 0x80, CHR 0x89]]"

text \<open>\<^verbatim>\<open>API_URL.format(source=source)\<close>.\<close>

definition api_url :: "string \<Rightarrow> string" where
  "api_url source =
     ''http://wallpaper-api.smartisan.com/app/index.php?r=paperapi/index/list&client_version=2&source=''
     @ source @ ''&limit=20&paper_id=0''"

text \<open>\<^verbatim>\<open>os.path.join(a, b)\<close> of \<^verbatim>\<open>posixpath\<close>, for two components.\<close>

definition path_join :: "string \<Rightarrow> string \<Rightarrow> string" where
  "path_join a b =
     (if b \<noteq> [] \<and> hd b = CHR ''/'' then b
      else if a = [] \<or> last a = CHR ''/'' then a @ b
      else a @ ''/'' @ b)"

section \<open>The environment\<close>

text \<open>
  What the program cannot decide is a parameter of the handlers:
  \<^item> \<open>api url\<close>: what \<^verbatim>\<open>requests.get(url, timeout=10)\<close>, \<^verbatim>\<open>raise_for_status()\<close> and
    \<^verbatim>\<open>response.json()\<close> give for the listing, the parsed body or the exception raised
    (the JSON error of \<^verbatim>\<open>requests\<close> itself is a \<^verbatim>\<open>RequestException\<close> as well
    and is that constructor here);
  \<^item> \<open>http i url\<close>: what the image request of the loop's round \<open>i\<close> gives, the bytes of
    \<^verbatim>\<open>response.content\<close> or the exception raised;
  \<^item> \<open>disk i filename\<close>: \<open>None\<close> when opening and writing \<open>filename\<close> in round
    \<open>i\<close> works, the text of the \<^verbatim>\<open>OSError\<close> otherwise;
  \<^item> \<open>decode\<close>: \<^verbatim>\<open>QImage.fromData\<close>, \<open>None\<close> for a null image.
\<close>

type_synonym api = "string \<Rightarrow> exc + body"
type_synonym http = "nat \<Rightarrow> pyval \<Rightarrow> exc + bytes"
type_synonym disk = "nat \<Rightarrow> string \<Rightarrow> string option"

section \<open>The worker thread\<close>

datatype signal = Finished int pixmap | Error int string

text \<open>\<^verbatim>\<open>ImageDownloader.run\<close>: the signal it emits.\<close>

definition run :: "(pyval \<Rightarrow> exc + bytes) \<Rightarrow> (bytes \<Rightarrow> pixmap option) \<Rightarrow> thread \<Rightarrow> signal" where
  "run get decode t =
     (case get (t_url t) of
        Inr content \<Rightarrow>
          (case decode content of
             None \<Rightarrow> Error (t_index t) ''Invalid image data''
           | Some pixmap \<Rightarrow> Finished (t_index t) pixmap)
      | Inl (RequestException m) \<Rightarrow> Error (t_index t) m
      | Inl e \<Rightarrow> Error (t_index t) (''An unexpected error occurred: '' @ exc_msg e))"

section \<open>The handlers of the main window\<close>

definition show_dialog :: "level \<Rightarrow> message \<Rightarrow> app \<Rightarrow> app" where
  "show_dialog l m s = s\<lparr>dialogs := dialogs s @ [Dialog l m]\<rparr>"

text \<open>\<^verbatim>\<open>self.pic_labels[i].setText(...)\<close> or \<^verbatim>\<open>setPixmap(...)\<close>.\<close>

definition set_label :: "int \<Rightarrow> label \<Rightarrow> app \<Rightarrow> app outcome" where
  "set_label i l s =
     (case norm_index (length (pic_labels s)) i of
        None \<Rightarrow> Raised (IndexError ''list index out of range'') s
      | Some k \<Rightarrow> Done (s\<lparr>pic_labels := (pic_labels s)[k := l]\<rparr>))"

definition clear_info :: "app \<Rightarrow> app" where
  "clear_info s = s\<lparr>name_label := [], author_label := [], source_label := [], desc_label := []\<rparr>"

text \<open>The body of the loop over the three slots in \<^verbatim>\<open>update_ui\<close>.\<close>

definition load_slot :: "int \<Rightarrow> nat \<Rightarrow> app \<Rightarrow> app outcome" where
  "load_slot start_index i s =
     (let data_index = start_index + int i in
      if data_index < int (length (wallpaper_data s)) then
        (case py_index (wallpaper_data s) data_index of
           None \<Rightarrow> Raised (IndexError ''list index out of range'') s
         | Some w \<Rightarrow>
             (let url = dict_get w ''url'' in
              if truthy url then
                (case set_label (int i) Loading s of
                   Done s' \<Rightarrow>
                     Done (s'\<lparr>image_threads := image_threads s' @
                                [\<lparr>t_index = int i, t_url = url, t_running = True\<rparr>]\<rparr>)
                 | Raised e s' \<Rightarrow> Raised e s')
              else set_label (int i) InvalidUrl s))
      else set_label (int i) NoWallpaper s)"

definition update_ui :: "bool \<Rightarrow> app \<Rightarrow> app outcome" where
  "update_ui clear s0 =
     (let s1 = s0\<lparr>page_label := current_page s0 + 1\<rparr>;
          s2 = s1\<lparr>pic_labels := map (\<lambda>_. Loading) (pic_labels s1)\<rparr>
      in
      if clear \<or> wallpaper_data s2 = [] then
        Done ((clear_info s2)\<lparr>pic_labels := map (\<lambda>_. NoData) (pic_labels s2)\<rparr>)
      else
        (let start_index = current_page s2 * 3 in
         case
           (if start_index < int (length (wallpaper_data s2)) then
              (case py_index (wallpaper_data s2) start_index of
                 None \<Rightarrow> Raised (IndexError ''list index out of range'') s2
               | Some first_wallpaper \<Rightarrow>
                   Done (s2\<lparr>name_label := py_str (dict_get_default first_wallpaper ''id'' (PStr ''N/A'')),
                            author_label := py_str (dict_get_default first_wallpaper ''author'' (PStr ''N/A'')),
                            source_label := sort_combo s2,
                            desc_label := py_str (dict_get_default first_wallpaper ''desc'' (PStr ''N/A''))\<rparr>))
            else Done (clear_info s2))
         of
           Raised e s3 \<Rightarrow> Raised e s3
         | Done s3 \<Rightarrow> for_each [0, 1, 2] (load_slot start_index) s3))"

text \<open>
  \<^verbatim>\<open>load_wallpapers\<close>: the \<^verbatim>\<open>try\<close> block, then the two \<^verbatim>\<open>except\<close> clauses applied to
  whatever the block raised.
\<close>

definition load_wallpapers_try :: "api \<Rightarrow> app \<Rightarrow> app outcome" where
  "load_wallpapers_try api s =
     (let source = sort_combo s; url = api_url source in
      case api url of
        Inl e \<Rightarrow> Raised e s
      | Inr data \<Rightarrow>
          if eq_zero (case b_code data of None \<Rightarrow> PNone | Some c \<Rightarrow> c) \<and> b_data data \<noteq> None then
            update_ui False (s\<lparr>wallpaper_data := the (b_data data)\<rparr>)
          else
            update_ui True
              ((show_dialog Critical (ApiReturnedError (map_option py_str (b_msg data))) s)
                 \<lparr>wallpaper_data := []\<rparr>))"

definition load_wallpapers :: "api \<Rightarrow> app \<Rightarrow> app outcome" where
  "load_wallpapers api s =
     (case load_wallpapers_try api s of
        Done s' \<Rightarrow> Done s'
      | Raised (RequestException m) s' \<Rightarrow>
          update_ui True ((show_dialog Critical (CannotConnect m) s')\<lparr>wallpaper_data := []\<rparr>)
      | Raised (JSONDecodeError m) s' \<Rightarrow>
          update_ui True ((show_dialog Critical InvalidJson s')\<lparr>wallpaper_data := []\<rparr>)
      | Raised e s' \<Rightarrow> Raised e s')"

definition sort_changed :: "string \<Rightarrow> api \<Rightarrow> app \<Rightarrow> app outcome" where
  "sort_changed text api s = load_wallpapers api (s\<lparr>current_page := 0\<rparr>)"

definition change_page :: "int \<Rightarrow> app \<Rightarrow> app outcome" where
  "change_page new_page s =
     (if new_page < 0 then Done (show_dialog Warning AlreadyFirstPage s)
      else if new_page * 3 \<ge> int (length (wallpaper_data s)) \<and> length (wallpaper_data s) > 0 then
        Done (show_dialog Warning NoMoreWallpapers s)
      else update_ui False (s\<lparr>current_page := new_page\<rparr>))"

text \<open>The loop at the end of \<^verbatim>\<open>image_loaded\<close> and \<^verbatim>\<open>image_error\<close>.\<close>

fun remove_first_finished :: "thread list \<Rightarrow> thread list" where
  "remove_first_finished [] = []"
| "remove_first_finished (t # ts) =
     (if \<not> t_running t then ts else t # remove_first_finished ts)"

definition image_loaded :: "int \<Rightarrow> pixmap \<Rightarrow> app \<Rightarrow> app outcome" where
  "image_loaded index pixmap s =
     (case (if index < int (length (pic_labels s))
            then set_label index (Picture (Scaled300 pixmap)) s else Done s) of
        Raised e s' \<Rightarrow> Raised e s'
      | Done s' \<Rightarrow> Done (s'\<lparr>image_threads := remove_first_finished (image_threads s')\<rparr>))"

definition image_error :: "int \<Rightarrow> string \<Rightarrow> app \<Rightarrow> app outcome" where
  "image_error index error_message s =
     (case (if index < int (length (pic_labels s))
            then set_label index (LoadFailed (take 20 error_message)) s else Done s) of
        Raised e s' \<Rightarrow> Raised e s'
      | Done s' \<Rightarrow> Done (s'\<lparr>image_threads := remove_first_finished (image_threads s')\<rparr>))"

text \<open>\<open>new_path\<close> is what the directory picker returned, empty when cancelled.\<close>

definition choose_download_path :: "string \<Rightarrow> app \<Rightarrow> app" where
  "choose_download_path new_path s =
     (if new_path \<noteq> [] then s\<lparr>download_path := new_path, location_edit := new_path\<rparr> else s)"

text \<open>
  The body of the loop in \<^verbatim>\<open>start_download\<close>, on the pair of \<^verbatim>\<open>download_count\<close> and
  the state. Only a \<^verbatim>\<open>RequestException\<close> is caught.
\<close>

definition download_one :: "http \<Rightarrow> disk \<Rightarrow> int \<Rightarrow> nat \<Rightarrow> nat \<times> app \<Rightarrow> (nat \<times> app) outcome" where
  "download_one http disk start_index i cs =
     (let download_count = fst cs; s = snd cs; data_index = start_index + int i in
      if data_index < int (length (wallpaper_data s)) then
        (case py_index (wallpaper_data s) data_index of
           None \<Rightarrow> Raised (IndexError ''list index out of range'') cs
         | Some wallpaper \<Rightarrow>
             (let url = dict_get wallpaper ''url'';
                  wallpaper_id = dict_get wallpaper ''id''
              in
              if truthy url \<and> truthy wallpaper_id then
                (let filename = path_join (download_path s) (py_str wallpaper_id @ ''.jpg'') in
                 case http i url of
                   Inl (RequestException m) \<Rightarrow>
                     Done (download_count, s\<lparr>printed := printed s @ [(py_str wallpaper_id, m)]\<rparr>)
                 | Inl e \<Rightarrow> Raised e cs
                 | Inr content \<Rightarrow>
                     (case disk i filename of
                        Some m \<Rightarrow> Raised (OSError m) cs
                      | None \<Rightarrow>
                          Done (download_count + 1, s\<lparr>files := (files s)(filename \<mapsto> content)\<rparr>)))
              else Done cs))
      else Done cs)"

definition start_download :: "http \<Rightarrow> disk \<Rightarrow> app \<Rightarrow> app outcome" where
  "start_download http disk s =
     (if wallpaper_data s = [] then Done (show_dialog Warning NoDataToDownload s)
      else
        (let start_index = current_page s * 3 in
         case for_each [0, 1, 2] (download_one http disk start_index) (0, s) of
           Raised e cs \<Rightarrow> Raised e (snd cs)
         | Done cs \<Rightarrow>
             (let download_count = fst cs; s' = snd cs in
              if download_count > 0 then
                Done (show_dialog Information (Downloaded download_count (download_path s')) s')
              else Done (show_dialog Warning NothingDownloaded s'))))"

text \<open>
  \<^verbatim>\<open>__init__\<close>: the attributes, \<^verbatim>\<open>init_ui\<close>, then the first \<^verbatim>\<open>load_wallpapers\<close>.
  \<open>home\<close> is \<^verbatim>\<open>os.path.expanduser("~")\<close> and \<open>fs\<close> the files found on disk;
  \<^verbatim>\<open>os.makedirs\<close> is taken to work, and directories are not part of \<open>files\<close>.
\<close>

definition init_ui :: "string \<Rightarrow> (string \<rightharpoonup> bytes) \<Rightarrow> app" where
  "init_ui home fs =
     (let path = path_join home ''SmartisanOS_Wallpapers'' in
      \<lparr>current_page = 0, wallpaper_data = [], image_threads = [], download_path = path,
       sort_combo = hd SOURCES, page_label = 0 + 1, pic_labels = [Blank, Blank, Blank],
       name_label = [], author_label = [], source_label = [], desc_label = [],
       location_edit = path, dialogs = [], printed = [], files = fs\<rparr>)"

definition init :: "string \<Rightarrow> (string \<rightharpoonup> bytes) \<Rightarrow> api \<Rightarrow> app outcome" where
  "init home fs api = load_wallpapers api (init_ui home fs)"

section \<open>The states the window can be in\<close>

text \<open>
  A state is reachable from \<^verbatim>\<open>__init__\<close> by the events the window reacts to: a new
  text in the source box, a page button (which calls \<^verbatim>\<open>change_page\<close> with 0, the
  page before or the page after; any argument is allowed here), a worker thread ending,
  the signal of a worker thread (threads are made for the slots 0, 1 and 2 only; the
  signal may arrive after the thread has left the list), the directory picker and the
  download button. The state a handler leaves when an exception escapes it counts as
  well.
\<close>

inductive reachable :: "app \<Rightarrow> bool" where
  r_init: "reachable (state_of (init home fs api))"
| r_sort: "reachable s \<Longrightarrow> text \<in> set SOURCES \<Longrightarrow>
           reachable (state_of (sort_changed text api (s\<lparr>sort_combo := text\<rparr>)))"
| r_page: "reachable s \<Longrightarrow> reachable (state_of (change_page n s))"
| r_ended: "reachable s \<Longrightarrow> k < length (image_threads s) \<Longrightarrow>
            reachable (s\<lparr>image_threads := (image_threads s)[k := (image_threads s ! k)\<lparr>t_running := False\<rparr>]\<rparr>)"
| r_loaded: "reachable s \<Longrightarrow> 0 \<le> t_index t \<Longrightarrow> t_index t < 3 \<Longrightarrow>
             run get decode t = Finished i p \<Longrightarrow> reachable (state_of (image_loaded i p s))"
| r_error: "reachable s \<Longrightarrow> 0 \<le> t_index t \<Longrightarrow> t_index t < 3 \<Longrightarrow>
            run get decode t = Error i m \<Longrightarrow> reachable (state_of (image_error i m s))"
| r_choose: "reachable s \<Longrightarrow> reachable (choose_download_path new_path s)"
| r_download: "reachable s \<Longrightarrow> reachable (state_of (start_download http disk s))"

section \<open>Observations and example inputs\<close>

text \<open>
  The number of preview slots that \<^verbatim>\<open>update_ui\<close> filled from a record of the listing:
  it gives such a slot the "loading" text (and a worker thread) or the "URL invalid"
  text, and every other slot the "no wallpaper" or the "no data" text.
\<close>

definition rendered_records :: "app \<Rightarrow> nat" where
  "rendered_records s = length (filter (\<lambda>l. l = Loading \<or> l = InvalidUrl) (pic_labels s))"

text \<open>
  Names for three expressions of the two \<^verbatim>\<open>for\<close> statements over the slots, for a
  page index that is not negative: the guard \<^verbatim>\<open>data_index < len(self.wallpaper_data)\<close>, the record
  \<^verbatim>\<open>self.wallpaper_data[data_index]\<close>, and the \<^verbatim>\<open>filename\<close> of \<^verbatim>\<open>start_download\<close>.
\<close>

definition in_window :: "app \<Rightarrow> nat \<Rightarrow> bool" where
  "in_window s i = (current_page s * 3 + int i < int (length (wallpaper_data s)))"

definition window_record :: "app \<Rightarrow> nat \<Rightarrow> wallpaper" where
  "window_record s i = wallpaper_data s ! nat (current_page s * 3 + int i)"

definition file_name :: "app \<Rightarrow> nat \<Rightarrow> string" where
  "file_name s i = py_str (dict_get (window_record s i) ''id'') @ ''.jpg''"

definition target_file :: "app \<Rightarrow> nat \<Rightarrow> string" where
  "target_file s i = path_join (download_path s) (file_name s i)"

text \<open>
  Slot \<open>i\<close> is attempted by \<^verbatim>\<open>start_download\<close> when it passes both guards of the
  loop; it is fetched when the request of its round then gives the image bytes, and
  otherwise the round prints the identifier and the error.
\<close>

definition attempted :: "app \<Rightarrow> nat \<Rightarrow> bool" where
  "attempted s i =
     (in_window s i \<and> truthy (dict_get (window_record s i) ''url'')
      \<and> truthy (dict_get (window_record s i) ''id''))"

definition fetched :: "http \<Rightarrow> app \<Rightarrow> nat \<Rightarrow> bool" where
  "fetched http s i =
     (attempted s i \<and>
      (case http i (dict_get (window_record s i) ''url'') of Inl e \<Rightarrow> False | Inr c \<Rightarrow> True))"

definition log_line :: "http \<Rightarrow> app \<Rightarrow> nat \<Rightarrow> string \<times> string" where
  "log_line http s i =
     (py_str (dict_get (window_record s i) ''id''),
      case http i (dict_get (window_record s i) ''url'') of Inl e \<Rightarrow> exc_msg e | Inr c \<Rightarrow> [])"

definition wp :: "string \<Rightarrow> string \<Rightarrow> wallpaper" where
  "wp i u = [''id'' \<mapsto> PStr i, ''url'' \<mapsto> PStr u]"

definition five_wallpapers :: "wallpaper list" where
  "five_wallpapers =
     [wp ''41'' ''http://x/41.jpg'', wp ''42'' ''http://x/42.jpg'', wp ''43'' ''http://x/43.jpg'',
      wp ''44'' ''http://x/44.jpg'', wp ''45'' ''http://x/45.jpg'']"

definition api_five :: api where
  "api_five url = Inr \<lparr>b_code = Some (PInt 0), b_msg = None, b_data = Some five_wallpapers\<rparr>"

definition api_down :: api where
  "api_down url = Inl (RequestException ''timed out'')"

text \<open>The window after start-up with five wallpapers, and after start-up without network.\<close>

definition started_five :: app where
  "started_five = state_of (init ''/home/u'' Map.empty api_five)"

definition started_offline :: app where
  "started_offline = state_of (init ''/home/u'' Map.empty api_down)"

text \<open>A listing whose first record has no URL, author or description.\<close>

definition no_url_wallpapers :: "wallpaper list" where
  "no_url_wallpapers = [Map.empty(''id'' \<mapsto> PStr ''9''), wp ''10'' ''http://x/10.jpg'']"

definition api_no_url :: api where
  "api_no_url url = Inr \<lparr>b_code = Some (PInt 0), b_msg = None, b_data = Some no_url_wallpapers\<rparr>"

definition started_no_url :: app where
  "started_no_url = state_of (init ''/home/u'' Map.empty api_no_url)"

text \<open>A server that answers with a failure code and a message.\<close>

definition api_refuses :: api where
  "api_refuses url = Inr \<lparr>b_code = Some (PInt 1), b_msg = Some (PStr ''bad source''), b_data = None\<rparr>"

text \<open>
  Three records with the same identifier, and three records the first of which has an
  identifier that begins with a slash.
\<close>

definition same_id_wallpapers :: "wallpaper list" where
  "same_id_wallpapers =
     [wp ''7'' ''http://x/a.jpg'', wp ''7'' ''http://x/b.jpg'', wp ''7'' ''http://x/c.jpg'']"

definition api_same_id :: api where
  "api_same_id url = Inr \<lparr>b_code = Some (PInt 0), b_msg = None, b_data = Some same_id_wallpapers\<rparr>"

definition started_same_id :: app where
  "started_same_id = state_of (init ''/home/u'' Map.empty api_same_id)"

definition rooted_id_wallpapers :: "wallpaper list" where
  "rooted_id_wallpapers =
     [wp ''/tmp/x'' ''http://x/a.jpg'', wp ''8'' ''http://x/b.jpg'', wp ''9'' ''http://x/c.jpg'']"

definition api_rooted_id :: api where
  "api_rooted_id url = Inr \<lparr>b_code = Some (PInt 0), b_msg = None, b_data = Some rooted_id_wallpapers\<rparr>"

definition started_rooted_id :: app where
  "started_rooted_id = state_of (init ''/home/u'' Map.empty api_rooted_id)"

text \<open>
  Image servers that answer every request with bytes made from the URL, that time out on
  every request, and that time out in the first round only; disks that take every write,
  and that refuse the write of the first round.
\<close>

definition http_ok :: http where
  "http_ok i url = Inr (''image at '' @ py_str url)"

definition http_down :: http where
  "http_down i url = Inl (RequestException ''timed out'')"

definition http_first_down :: http where
  "http_first_down i url =
     (if i = 0 then Inl (RequestException ''timed out'') else Inr (''image at '' @ py_str url))"

definition disk_ok :: disk where
  "disk_ok i filename = None"

definition disk_first_denied :: disk where
  "disk_first_denied i filename = (if i = 0 then Some ''Permission denied'' else None)"

text \<open>Then the button for the next page is pressed.\<close>

definition five_page1 :: app where
  "five_page1 = state_of (change_page 1 started_five)"

definition offline_page1 :: app where
  "offline_page1 = state_of (change_page 1 started_offline)"

section \<open>Lemmas about the handlers\<close>

subsection \<open>Indexing and iteration\<close>

lemma norm_index_inrange: "0 \<le> j \<Longrightarrow> j < int n \<Longrightarrow> norm_index n j = Some (nat j)"
  by (simp add: norm_index_def)

lemma py_index_inrange: "0 \<le> j \<Longrightarrow> j < int (length xs) \<Longrightarrow> py_index xs j = Some (xs ! nat j)"
  by (simp add: py_index_def norm_index_inrange)

lemma set_label_inrange:
  "0 \<le> j \<Longrightarrow> j < int (length (pic_labels s)) \<Longrightarrow>
   set_label j l s = Done (s\<lparr>pic_labels := (pic_labels s)[nat j := l]\<rparr>)"
  by (simp add: set_label_def norm_index_inrange)

lemma for_each_keeps:
  assumes "\<And>x s. f (state_of (body x s)) = f s"
  shows "f (state_of (for_each xs body s)) = f s"
proof (induction xs arbitrary: s)
  case Nil
  show ?case by simp
next
  case (Cons x xs)
  show ?case
  proof (cases "body x s")
    case (Done s')
    have "f s' = f s" using assms [of x s] Done by simp
    then show ?thesis using Cons.IH [of s'] Done by simp
  next
    case (Raised e s')
    then show ?thesis using assms [of x s] by simp
  qed
qed

lemma for_each_raises:
  assumes "for_each xs body s = Raised e s'"
    and "\<And>x s e s'. body x s = Raised e s' \<Longrightarrow> P e"
  shows "P e"
  using assms(1)
proof (induction xs arbitrary: s)
  case Nil
  then show ?case by simp
next
  case (Cons x xs)
  show ?case
  proof (cases "body x s")
    case (Done s1)
    then show ?thesis using Cons by simp
  next
    case (Raised e1 s1)
    then have "e1 = e" using Cons.prems by simp
    then show ?thesis using assms(2) [of x s e1 s1] Raised by simp
  qed
qed

subsection \<open>What \<^verbatim>\<open>update_ui\<close> does\<close>

lemma set_label_frame:
  "current_page (state_of (set_label i l s)) = current_page s"
  "wallpaper_data (state_of (set_label i l s)) = wallpaper_data s"
  "length (pic_labels (state_of (set_label i l s))) = length (pic_labels s)"
  "dialogs (state_of (set_label i l s)) = dialogs s"
  by (simp_all add: set_label_def split: option.splits)

lemma load_slot_frame:
  "current_page (state_of (load_slot st i s)) = current_page s"
  "wallpaper_data (state_of (load_slot st i s)) = wallpaper_data s"
  "length (pic_labels (state_of (load_slot st i s))) = length (pic_labels s)"
  "dialogs (state_of (load_slot st i s)) = dialogs s"
  by (simp_all add: load_slot_def set_label_def Let_def split: option.splits)

lemma update_ui_frame:
  "current_page (state_of (update_ui c s)) = current_page s"
  "wallpaper_data (state_of (update_ui c s)) = wallpaper_data s"
  "length (pic_labels (state_of (update_ui c s))) = length (pic_labels s)"
  "dialogs (state_of (update_ui c s)) = dialogs s"
  by (auto simp add: update_ui_def Let_def clear_info_def for_each_keeps [where f = current_page] 
  for_each_keeps [where f = wallpaper_data] for_each_keeps [where f = dialogs] 
  for_each_keeps [where f = "\<lambda>s. length (pic_labels s)"] load_slot_frame 
  simp del: for_each.simps split: option.splits outcome.splits if_splits)

lemma update_ui_page_label:
  "page_label (state_of (update_ui c s)) = current_page s + 1"
proof -
  have slot: "page_label (state_of (load_slot st i s0)) = page_label s0" for st i s0
    by (simp add: load_slot_def set_label_def Let_def split: option.splits)
  show ?thesis
    by (auto simp add: update_ui_def Let_def clear_info_def for_each_keeps [where f = page_label] slot
        simp del: for_each.simps split: option.splits outcome.splits if_splits)
qed

lemma load_slot_eq:
  assumes "0 \<le> st" and "i < length (pic_labels s)"
  shows "load_slot st i s =
     Done (if st + int i < int (length (wallpaper_data s)) then
             (if truthy (dict_get (wallpaper_data s ! nat (st + int i)) ''url'') then
                s\<lparr>pic_labels := (pic_labels s)[i := Loading],
                  image_threads := image_threads s @
                    [\<lparr>t_index = int i,
                      t_url = dict_get (wallpaper_data s ! nat (st + int i)) ''url'',
                      t_running = True\<rparr>]\<rparr>
              else s\<lparr>pic_labels := (pic_labels s)[i := InvalidUrl]\<rparr>)
           else s\<lparr>pic_labels := (pic_labels s)[i := NoWallpaper]\<rparr>)"
  using assms
  by (simp add: load_slot_def Let_def py_index_inrange set_label_inrange)

lemma load_slot_raises:
  assumes "load_slot st i s = Raised e s'"
  shows "\<exists>m. e = IndexError m"
  using assms
  by (auto simp add: load_slot_def set_label_def Let_def split: option.splits if_splits)

lemma update_ui_cleared:
  assumes "c \<or> wallpaper_data s = []"
  shows "update_ui c s =
     Done (s\<lparr>page_label := current_page s + 1,
             pic_labels := map (\<lambda>_. NoData) (pic_labels s),
             name_label := [], author_label := [], source_label := [], desc_label := []\<rparr>)"
  using assms
  by (auto simp add: update_ui_def Let_def clear_info_def)

lemma update_ui_nonempty:
  assumes "wallpaper_data s \<noteq> []" and "0 \<le> current_page s"
  shows "update_ui False s =
     for_each [0, 1, 2] (load_slot (current_page s * 3))
       (if current_page s * 3 < int (length (wallpaper_data s)) then
          s\<lparr>page_label := current_page s + 1,
            pic_labels := map (\<lambda>_. Loading) (pic_labels s),
            name_label := py_str (dict_get_default (wallpaper_data s ! nat (current_page s * 3)) ''id'' (PStr ''N/A'')),
            author_label := py_str (dict_get_default (wallpaper_data s ! nat (current_page s * 3)) ''author'' (PStr ''N/A'')),
            source_label := sort_combo s,
            desc_label := py_str (dict_get_default (wallpaper_data s ! nat (current_page s * 3)) ''desc'' (PStr ''N/A''))\<rparr>
        else
          s\<lparr>page_label := current_page s + 1,
            pic_labels := map (\<lambda>_. Loading) (pic_labels s),
            name_label := [], author_label := [], source_label := [], desc_label := []\<rparr>)"
  using assms
  by (simp add: update_ui_def Let_def clear_info_def py_index_inrange del: for_each.simps)

lemma load_slots_result:
  assumes "0 \<le> st" and "length (pic_labels s) = 3"
  shows "for_each [0, 1, 2] (load_slot st) s =
     Done (s\<lparr>pic_labels :=
               map (\<lambda>i. if st + int i < int (length (wallpaper_data s)) then
                           (if truthy (dict_get (wallpaper_data s ! nat (st + int i)) ''url'')
                            then Loading else InvalidUrl)
                         else NoWallpaper) [0, 1, 2],
             image_threads := image_threads s @
               map (\<lambda>i. \<lparr>t_index = int i,
                          t_url = dict_get (wallpaper_data s ! nat (st + int i)) ''url'',
                          t_running = True\<rparr>)
                 (filter (\<lambda>i. st + int i < int (length (wallpaper_data s))
                              \<and> truthy (dict_get (wallpaper_data s ! nat (st + int i)) ''url''))
                    [0, 1, 2])\<rparr>)"
proof -
  obtain a b c where abc: "pic_labels s = [a, b, c]"
    using assms(2) by (auto simp add: length_Suc_conv numeral_3_eq_3)
  show ?thesis
    using assms(1) abc by (simp add: load_slot_eq)
qed

lemma update_ui_result:
  assumes "length (pic_labels s) = 3" and "0 \<le> current_page s" and "wallpaper_data s \<noteq> []"
  shows "update_ui False s =
     Done (s\<lparr>page_label := current_page s + 1,
             pic_labels :=
               map (\<lambda>i. if in_window s i then
                           (if truthy (dict_get (window_record s i) ''url'') then Loading else InvalidUrl)
                         else NoWallpaper) [0, 1, 2],
             image_threads := image_threads s @
               map (\<lambda>i. \<lparr>t_index = int i, t_url = dict_get (window_record s i) ''url'',
                          t_running = True\<rparr>)
                 (filter (\<lambda>i. in_window s i \<and> truthy (dict_get (window_record s i) ''url'')) [0, 1, 2]),
             name_label :=
               (if in_window s 0 then py_str (dict_get_default (window_record s 0) ''id'' (PStr ''N/A'')) else []),
             author_label :=
               (if in_window s 0 then py_str (dict_get_default (window_record s 0) ''author'' (PStr ''N/A'')) else []),
             source_label := (if in_window s 0 then sort_combo s else []),
             desc_label :=
               (if in_window s 0 then py_str (dict_get_default (window_record s 0) ''desc'' (PStr ''N/A'')) else [])\<rparr>)"
proof -
  have st: "0 \<le> current_page s * 3" using assms(2) by simp
  define s3 where "s3 =
       (if current_page s * 3 < int (length (wallpaper_data s)) then
          s\<lparr>page_label := current_page s + 1,
            pic_labels := map (\<lambda>_. Loading) (pic_labels s),
            name_label := py_str (dict_get_default (wallpaper_data s ! nat (current_page s * 3)) ''id'' (PStr ''N/A'')),
            author_label := py_str (dict_get_default (wallpaper_data s ! nat (current_page s * 3)) ''author'' (PStr ''N/A'')),
            source_label := sort_combo s,
            desc_label := py_str (dict_get_default (wallpaper_data s ! nat (current_page s * 3)) ''desc'' (PStr ''N/A''))\<rparr>
        else
          s\<lparr>page_label := current_page s + 1,
            pic_labels := map (\<lambda>_. Loading) (pic_labels s),
            name_label := [], author_label := [], source_label := [], desc_label := []\<rparr>)"
  have len: "length (pic_labels s3) = 3"
    using assms(1) by (simp add: s3_def)
  have "update_ui False s = for_each [0, 1, 2] (load_slot (current_page s * 3)) s3"
    unfolding s3_def by (rule update_ui_nonempty [OF assms(3) assms(2)])
  also note load_slots_result [OF st len]
  finally show ?thesis
    by (simp add: s3_def in_window_def window_record_def)
qed

lemma update_ui_returns:
  assumes "length (pic_labels s) = 3" and "0 \<le> current_page s"
  shows "\<exists>s'. update_ui c s = Done s'"
proof (cases "c \<or> wallpaper_data s = []")
  case True
  then show ?thesis by (simp add: update_ui_cleared)
next
  case False
  then have "wallpaper_data s \<noteq> []" and "c = False" by auto
  then show ?thesis using update_ui_result [OF assms] by simp
qed

lemma update_ui_raises:
  assumes "update_ui c s = Raised e s'"
  shows "\<exists>m. e = IndexError m"
proof (cases "c \<or> wallpaper_data s = []")
  case True
  then show ?thesis using assms by (simp add: update_ui_cleared)
next
  case False
  have loop: "\<exists>m. e = IndexError m"
    if "for_each [0, 1, 2] (load_slot st) s3 = Raised e s'" for st s3
    using that load_slot_raises by (rule for_each_raises)
  show ?thesis
    using assms False loop
    by (auto simp add: update_ui_def Let_def simp del: for_each.simps
        split: option.splits outcome.splits if_splits)
qed

subsection \<open>What \<^verbatim>\<open>load_wallpapers\<close> does\<close>

lemma load_wallpapers_eq:
  "load_wallpapers api s =
     (case api (api_url (sort_combo s)) of
        Inl e \<Rightarrow>
          (case e of
             RequestException m \<Rightarrow>
               update_ui True ((show_dialog Critical (CannotConnect m) s)\<lparr>wallpaper_data := []\<rparr>)
           | JSONDecodeError m \<Rightarrow>
               update_ui True ((show_dialog Critical InvalidJson s)\<lparr>wallpaper_data := []\<rparr>)
           | _ \<Rightarrow> Raised e s)
      | Inr b \<Rightarrow>
          if eq_zero (case b_code b of None \<Rightarrow> PNone | Some c \<Rightarrow> c) \<and> b_data b \<noteq> None then
            update_ui False (s\<lparr>wallpaper_data := the (b_data b)\<rparr>)
          else
            update_ui True
              ((show_dialog Critical (ApiReturnedError (map_option py_str (b_msg b))) s)
                 \<lparr>wallpaper_data := []\<rparr>))"
proof (cases "api (api_url (sort_combo s))")
  case (Inl e)
  then show ?thesis
    by (cases e) (simp_all add: load_wallpapers_def load_wallpapers_try_def Let_def)
next
  case (Inr b)
  have pass: "(case r of Done s' \<Rightarrow> Done s'
      | Raised (RequestException m) s' \<Rightarrow>
          update_ui True ((show_dialog Critical (CannotConnect m) s')\<lparr>wallpaper_data := []\<rparr>)
      | Raised (JSONDecodeError m) s' \<Rightarrow>
          update_ui True ((show_dialog Critical InvalidJson s')\<lparr>wallpaper_data := []\<rparr>)
      | Raised e s' \<Rightarrow> Raised e s') = r"
    if r: "r = update_ui c s0" for r c s0
  proof (cases r)
    case (Done s')
    then show ?thesis by simp
  next
    case (Raised e s')
    then obtain m where "e = IndexError m" using update_ui_raises [of c s0 e s'] r by auto
    then show ?thesis using Raised by simp
  qed
  show ?thesis
    using Inr
    by (simp add: load_wallpapers_def load_wallpapers_try_def Let_def pass)
qed


lemma load_wallpapers_failed:
  assumes "api (api_url (sort_combo s)) = r"
  shows "(\<forall>m. r = Inl (RequestException m) \<longrightarrow>
            load_wallpapers api s =
              Done (s\<lparr>wallpaper_data := [],
                      dialogs := dialogs s @ [Dialog Critical (CannotConnect m)],
                      page_label := current_page s + 1,
                      pic_labels := map (\<lambda>_. NoData) (pic_labels s),
                      name_label := [], author_label := [], source_label := [], desc_label := []\<rparr>))
     \<and> (\<forall>m. r = Inl (JSONDecodeError m) \<longrightarrow>
            load_wallpapers api s =
              Done (s\<lparr>wallpaper_data := [],
                      dialogs := dialogs s @ [Dialog Critical InvalidJson],
                      page_label := current_page s + 1,
                      pic_labels := map (\<lambda>_. NoData) (pic_labels s),
                      name_label := [], author_label := [], source_label := [], desc_label := []\<rparr>))
     \<and> (\<forall>b. r = Inr b
              \<and> \<not> (eq_zero (case b_code b of None \<Rightarrow> PNone | Some c \<Rightarrow> c) \<and> b_data b \<noteq> None) \<longrightarrow>
            load_wallpapers api s =
              Done (s\<lparr>wallpaper_data := [],
                      dialogs := dialogs s @ [Dialog Critical (ApiReturnedError (map_option py_str (b_msg b)))],
                      page_label := current_page s + 1,
                      pic_labels := map (\<lambda>_. NoData) (pic_labels s),
                      name_label := [], author_label := [], source_label := [], desc_label := []\<rparr>))"
  using assms
  by (auto simp add: load_wallpapers_def load_wallpapers_try_def Let_def update_ui_cleared show_dialog_def)

lemma load_wallpapers_frame:
  "current_page (state_of (load_wallpapers api s)) = current_page s"
  "length (pic_labels (state_of (load_wallpapers api s))) = length (pic_labels s)"
  by (simp_all add: load_wallpapers_eq update_ui_frame show_dialog_def
      split: sum.splits exc.splits)

lemma load_wallpapers_page_label:
  assumes "load_wallpapers api s = Done s'"
  shows "page_label s' = current_page s + 1"
proof -
  have u: "page_label s' = current_page s0 + 1" if "update_ui c s0 = Done s'" for c s0
    using update_ui_page_label [of c s0] that by simp
  show ?thesis
    using assms
    by (auto simp add: load_wallpapers_eq show_dialog_def
        split: sum.splits exc.splits if_splits dest!: u)
qed

lemma load_wallpapers_first_record:
  assumes "load_wallpapers api s = Done s'" and "wallpaper_data s' \<noteq> []"
    and "length (pic_labels s) = 3" and "current_page s = 0"
  shows "name_label s' = py_str (dict_get_default (wallpaper_data s' ! 0) ''id'' (PStr ''N/A''))
     \<and> pic_labels s' ! 0 =
         (if truthy (dict_get (wallpaper_data s' ! 0) ''url'') then Loading else InvalidUrl)"
proof (cases "api (api_url (sort_combo s))")
  case (Inl e)
  then show ?thesis
    using assms(1,2) by (cases e) (auto simp add: load_wallpapers_eq update_ui_cleared)
next
  case (Inr b)
  show ?thesis
  proof (cases "eq_zero (case b_code b of None \<Rightarrow> PNone | Some c \<Rightarrow> c) \<and> b_data b \<noteq> None")
    case False
    then show ?thesis
      using assms(1,2) Inr by (auto simp add: load_wallpapers_eq update_ui_cleared)
  next
    case True
    define s1 where "s1 = s\<lparr>wallpaper_data := the (b_data b)\<rparr>"
    have u: "update_ui False s1 = Done s'"
      using assms(1) Inr True by (simp add: load_wallpapers_eq s1_def)
    have wd: "wallpaper_data s' = wallpaper_data s1"
      using update_ui_frame(2) [of False s1] u by simp
    have pre: "length (pic_labels s1) = 3" "0 \<le> current_page s1" "wallpaper_data s1 \<noteq> []"
      using assms(2,3,4) wd by (simp_all add: s1_def)
    have iw: "in_window s1 0"
      using pre(3) assms(4) by (simp add: in_window_def s1_def)
    have wr: "window_record s1 0 = wallpaper_data s' ! 0"
      using assms(4) wd by (simp add: window_record_def s1_def)
    have nm: "name_label s' = py_str (dict_get_default (window_record s1 0) ''id'' (PStr ''N/A''))"
      and pl: "pic_labels s' ! 0 =
         (if truthy (dict_get (window_record s1 0) ''url'') then Loading else InvalidUrl)"
      using update_ui_result [OF pre] u iw by auto
    show ?thesis
      using nm pl by (simp add: wr)
  qed
qed

subsection \<open>The thumbnail signals\<close>

lemma image_error_slot:
  assumes "length (pic_labels s) = 3" and "i < 3"
  shows "image_error (int i) m s =
     Done (s\<lparr>pic_labels := (pic_labels s)[i := LoadFailed (take 20 m)],
             image_threads := remove_first_finished (image_threads s)\<rparr>)"
  using assms by (simp add: image_error_def set_label_inrange)


subsection \<open>What \<^verbatim>\<open>start_download\<close> does\<close>











subsection \<open>Reachable states\<close>



subsection \<open>The example inputs\<close>

lemmas example_defs =
  started_no_url_def no_url_wallpapers_def api_no_url_def api_refuses_def
  started_same_id_def same_id_wallpapers_def api_same_id_def
  started_rooted_id_def rooted_id_wallpapers_def api_rooted_id_def
  started_five_def started_offline_def five_page1_def offline_page1_def change_page_def init_def init_ui_def load_wallpapers_def
  load_wallpapers_try_def api_five_def api_down_def five_wallpapers_def wp_def update_ui_def
  load_slot_def set_label_def norm_index_def py_index_def dict_get_def dict_get_default_def
  show_dialog_def clear_info_def path_join_def SOURCES_def api_url_def

lemmas listing_defs = five_wallpapers_def same_id_wallpapers_def rooted_id_wallpapers_def wp_def

lemmas download_defs =
  start_download_def download_one_def http_ok_def http_down_def http_first_down_def disk_ok_def
  disk_first_denied_def in_window_def window_record_def file_name_def target_file_def
  attempted_def fetched_def log_line_def

lemma started_five_eq:
  "started_five =
     \<lparr>current_page = 0, wallpaper_data = five_wallpapers,
      image_threads =
        [\<lparr>t_index = 0, t_url = PStr ''http://x/41.jpg'', t_running = True\<rparr>,
         \<lparr>t_index = 1, t_url = PStr ''http://x/42.jpg'', t_running = True\<rparr>,
         \<lparr>t_index = 2, t_url = PStr ''http://x/43.jpg'', t_running = True\<rparr>],
      download_path = ''/home/u/SmartisanOS_Wallpapers'', sort_combo = ''Artand'',
      page_label = 1, pic_labels = [Loading, Loading, Loading], name_label = ''41'',
      author_label = ''N/A'', source_label = ''Artand'', desc_label = ''N/A'',
      location_edit = ''/home/u/SmartisanOS_Wallpapers'', dialogs = [], printed = [],
      files = Map.empty\<rparr>"
  by (simp add: example_defs Let_def)



lemma started_offline_eq:
  "started_offline =
     \<lparr>current_page = 0, wallpaper_data = [], image_threads = [],
      download_path = ''/home/u/SmartisanOS_Wallpapers'', sort_combo = ''Artand'',
      page_label = 1, pic_labels = [NoData, NoData, NoData], name_label = [],
      author_label = [], source_label = [], desc_label = [],
      location_edit = ''/home/u/SmartisanOS_Wallpapers'',
      dialogs = [Dialog Critical (CannotConnect ''timed out'')], printed = [],
      files = Map.empty\<rparr>"
  by (simp add: example_defs Let_def)



lemma offline_page1_reachable: "reachable offline_page1"
  unfolding offline_page1_def started_offline_def by (rule r_page [OF r_init])

section \<open>Page navigation\<close>

text \<open>
  C1. For a listing of \<open>N\<close> records and every integer \<open>n\<close>, \<^verbatim>\<open>change_page(n)\<close> is
  accepted iff \<open>0 \<le> n\<close> and (\<open>N = 0\<close> or \<open>n * 3 < N\<close>). When accepted it returns with
  the current page equal to \<open>n\<close>, the listing untouched and no message box; otherwise
  the state is the one before, except that one warning box was shown.
\<close>

theorem change_page_accepts_iff:
  assumes "length (pic_labels s) = 3"
  shows "(0 \<le> n \<and> (length (wallpaper_data s) = 0 \<or> n * 3 < int (length (wallpaper_data s)))
            \<longrightarrow> (\<exists>s'. change_page n s = Done s' \<and> current_page s' = n
                   \<and> wallpaper_data s' = wallpaper_data s \<and> dialogs s' = dialogs s))
       \<and> (\<not> (0 \<le> n \<and> (length (wallpaper_data s) = 0 \<or> n * 3 < int (length (wallpaper_data s))))
            \<longrightarrow> (\<exists>m. change_page n s = Done (s\<lparr>dialogs := dialogs s @ [Dialog Warning m]\<rparr>)))"
proof (intro conjI impI)
  assume ok: "0 \<le> n \<and> (length (wallpaper_data s) = 0 \<or> n * 3 < int (length (wallpaper_data s)))"
  let ?s1 = "s\<lparr>current_page := n\<rparr>"
  have eq: "change_page n s = update_ui False ?s1"
    using ok by (auto simp add: change_page_def)
  obtain s' where s': "update_ui False ?s1 = Done s'"
    using update_ui_returns [of ?s1 False] assms ok by auto
  have "current_page s' = n" "wallpaper_data s' = wallpaper_data s" "dialogs s' = dialogs s"
    using update_ui_frame(1,2,4) [of False ?s1] s' by simp_all
  then show "\<exists>s'. change_page n s = Done s' \<and> current_page s' = n
                   \<and> wallpaper_data s' = wallpaper_data s \<and> dialogs s' = dialogs s"
    using eq s' by simp
next
  assume "\<not> (0 \<le> n \<and> (length (wallpaper_data s) = 0 \<or> n * 3 < int (length (wallpaper_data s))))"
  then consider "n < 0"
    | "0 \<le> n" and "int (length (wallpaper_data s)) \<le> n * 3" and "0 < length (wallpaper_data s)"
    by fastforce
  then show "\<exists>m. change_page n s = Done (s\<lparr>dialogs := dialogs s @ [Dialog Warning m]\<rparr>)"
  proof cases
    case 1
    then have "change_page n s = Done (s\<lparr>dialogs := dialogs s @ [Dialog Warning AlreadyFirstPage]\<rparr>)"
      by (simp add: change_page_def show_dialog_def)
    then show ?thesis by (rule exI)
  next
    case 2
    then have "change_page n s = Done (s\<lparr>dialogs := dialogs s @ [Dialog Warning NoMoreWallpapers]\<rparr>)"
      by (simp add: change_page_def show_dialog_def)
    then show ?thesis by (rule exI)
  qed
qed

theorem change_page_accepts_iff_witness:
  "length (pic_labels started_five) = 3
   \<and> (\<exists>s'. change_page 1 started_five = Done s' \<and> current_page s' = 1
         \<and> wallpaper_data s' = wallpaper_data started_five \<and> dialogs s' = dialogs started_five)
   \<and> (\<exists>m. change_page 2 started_five =
         Done (started_five\<lparr>dialogs := dialogs started_five @ [Dialog Warning m]\<rparr>))"
proof -
  have len: "length (pic_labels started_five) = 3"
    by (simp add: example_defs Let_def)
  have n: "length (wallpaper_data started_five) = 5"
    by (simp add: example_defs Let_def)
  show ?thesis
    using len n change_page_accepts_iff [OF len, of 1] change_page_accepts_iff [OF len, of 2]
    by simp
qed

section \<open>The window of three slots\<close>

text \<open>
  C2, as amended. For a listing of \<open>N\<close> records and a page index \<open>p \<ge> 0\<close>,
  \<^verbatim>\<open>update_ui\<close> returns and fills exactly \<open>max 0 (min 3 (N - p * 3))\<close> slots from
  records, never more than three and never a negative number; every slot past the end of
  the listing shows the "no wallpaper" text, or the "no data" text when the listing is
  empty. When the listing is not empty and \<open>p * 3 < N\<close>, the number is
  \<open>min 3 (N - p * 3)\<close>.
\<close>

theorem update_ui_window_size:
  assumes "length (pic_labels s) = 3" and "0 \<le> current_page s"
  shows "\<exists>s'. update_ui False s = Done s'
     \<and> int (rendered_records s') = max 0 (min 3 (int (length (wallpaper_data s)) - current_page s * 3))
     \<and> (\<forall>i<3. \<not> in_window s i \<longrightarrow>
            pic_labels s' ! i = (if wallpaper_data s = [] then NoData else NoWallpaper))
     \<and> (wallpaper_data s \<noteq> [] \<and> current_page s * 3 < int (length (wallpaper_data s)) \<longrightarrow>
            int (rendered_records s') = min 3 (int (length (wallpaper_data s)) - current_page s * 3))"
proof (cases "wallpaper_data s = []")
  case True
  obtain a b c where abc: "pic_labels s = [a, b, c]"
    using assms(1) by (auto simp add: length_Suc_conv numeral_3_eq_3)
  show ?thesis
    using True assms(2) abc
    by (simp add: update_ui_cleared rendered_records_def less_Suc_eq numeral_3_eq_3 all_conj_distrib)
next
  case False
  from update_ui_result [OF assms False] obtain s' where s': "update_ui False s = Done s'"
    and labels: "pic_labels s' =
         map (\<lambda>i. if in_window s i then
                     (if truthy (dict_get (window_record s i) ''url'') then Loading else InvalidUrl)
                   else NoWallpaper) [0, 1, 2]"
    by simp
  have count: "int (rendered_records s') = max 0 (min 3 (int (length (wallpaper_data s)) - current_page s * 3))"
    unfolding rendered_records_def labels by (simp add: in_window_def)
  have empty: "\<forall>i<3. \<not> in_window s i \<longrightarrow> pic_labels s' ! i = NoWallpaper"
    unfolding labels by (simp add: less_Suc_eq numeral_3_eq_3 numeral_2_eq_2)
  show ?thesis
    using s' count empty False by auto
qed


theorem update_ui_window_size_witness:
  "length (pic_labels five_page1) = 3 \<and> 0 \<le> current_page five_page1
   \<and> (\<exists>s'. update_ui False five_page1 = Done s' \<and> int (rendered_records s') = 2
         \<and> pic_labels s' ! 2 = NoWallpaper)"
proof -
  have len: "length (pic_labels five_page1) = 3"
    and page: "current_page five_page1 = 1"
    and n: "length (wallpaper_data five_page1) = 5"
    and ne: "wallpaper_data five_page1 \<noteq> []"
    by (simp_all add: example_defs Let_def)
  have p: "0 \<le> current_page five_page1" using page by simp
  have out: "\<not> in_window five_page1 2" by (simp add: in_window_def page n)
  from update_ui_window_size [OF len p]
  obtain s' where "update_ui False five_page1 = Done s'"
    and "int (rendered_records s') =
           max 0 (min 3 (int (length (wallpaper_data five_page1)) - current_page five_page1 * 3))"
    and "\<forall>i<3. \<not> in_window five_page1 i \<longrightarrow>
           pic_labels s' ! i = (if wallpaper_data five_page1 = [] then NoData else NoWallpaper)"
    by blast
  then show ?thesis using len p out ne page n by auto
qed

text \<open>
  The claim as written fails on an empty listing at page 1, a state reached by starting
  without network and pressing the button for the next page: no slot is filled, and
  \<open>min 3 (N - p * 3)\<close> is \<open>-3\<close>.
\<close>

theorem update_ui_window_size_counterexample:
  "length (pic_labels offline_page1) = 3
   \<and> 0 \<le> current_page offline_page1
   \<and> length (wallpaper_data offline_page1) = 0
   \<and> rendered_records (state_of (update_ui False offline_page1)) = 0
   \<and> min 3 (int (length (wallpaper_data offline_page1)) - current_page offline_page1 * 3) = - 3
   \<and> int (rendered_records (state_of (update_ui False offline_page1)))
       \<noteq> min 3 (int (length (wallpaper_data offline_page1)) - current_page offline_page1 * 3)"
  by (simp add: example_defs rendered_records_def Let_def)

section \<open>Downloading the window\<close>




text \<open>
  C4. The claim asks that a failed write is logged and skipped like a failed request.
  The \<^verbatim>\<open>except\<close> clause of the loop catches \<^verbatim>\<open>RequestException\<close> only: when the
  first write is refused, the \<^verbatim>\<open>OSError\<close> leaves \<^verbatim>\<open>start_download\<close>, the other two
  records are not tried and no box is shown. When the first request times out instead,
  the line is printed, the other two records are written and the count 2 is reported.
\<close>

theorem start_download_write_failure_escapes:
  "attempted started_five 0 \<and> attempted started_five 1 \<and> attempted started_five 2
   \<and> start_download http_ok disk_first_denied started_five =
       Raised (OSError ''Permission denied'') started_five
   \<and> start_download http_first_down disk_ok started_five =
       Done (started_five
          \<lparr>printed := [(''41'', ''timed out'')],
           files := [''/home/u/SmartisanOS_Wallpapers/42.jpg'' \<mapsto> ''image at http://x/42.jpg'',
                     ''/home/u/SmartisanOS_Wallpapers/43.jpg'' \<mapsto> ''image at http://x/43.jpg''],
           dialogs := [Dialog Information (Downloaded 2 ''/home/u/SmartisanOS_Wallpapers'')]\<rparr>)"
  by (simp add: started_five_eq listing_defs download_defs py_index_def norm_index_def dict_get_def
      path_join_def show_dialog_def Let_def)

section \<open>Fetching the listing\<close>





text \<open>
  C6. When the request for the listing raises a \<^verbatim>\<open>RequestException\<close>, when the body
  is not JSON, and when the body has no code 0 or no data array, \<^verbatim>\<open>load_wallpapers\<close>
  returns (no exception leaves it) with an empty listing, one more critical message box
  and the "no data" text in every slot.
\<close>

theorem load_wallpapers_error_clears_listing:
  assumes "api (api_url (sort_combo s)) = r"
  shows "(\<forall>m. r = Inl (RequestException m) \<longrightarrow>
            (\<exists>s'. load_wallpapers api s = Done s' \<and> wallpaper_data s' = []
                  \<and> dialogs s' = dialogs s @ [Dialog Critical (CannotConnect m)]
                  \<and> pic_labels s' = map (\<lambda>_. NoData) (pic_labels s)))
     \<and> (\<forall>m. r = Inl (JSONDecodeError m) \<longrightarrow>
            (\<exists>s'. load_wallpapers api s = Done s' \<and> wallpaper_data s' = []
                  \<and> dialogs s' = dialogs s @ [Dialog Critical InvalidJson]
                  \<and> pic_labels s' = map (\<lambda>_. NoData) (pic_labels s)))
     \<and> (\<forall>b. r = Inr b
              \<and> \<not> (eq_zero (case b_code b of None \<Rightarrow> PNone | Some c \<Rightarrow> c) \<and> b_data b \<noteq> None) \<longrightarrow>
            (\<exists>s'. load_wallpapers api s = Done s' \<and> wallpaper_data s' = []
                  \<and> dialogs s' = dialogs s @
                       [Dialog Critical (ApiReturnedError (map_option py_str (b_msg b)))]
                  \<and> pic_labels s' = map (\<lambda>_. NoData) (pic_labels s)))"
proof (intro conjI allI impI)
  note f = load_wallpapers_failed [where api = api and s = s, OF assms]
  fix m
  assume "r = Inl (RequestException m)"
  with f show "\<exists>s'. load_wallpapers api s = Done s' \<and> wallpaper_data s' = []
                  \<and> dialogs s' = dialogs s @ [Dialog Critical (CannotConnect m)]
                  \<and> pic_labels s' = map (\<lambda>_. NoData) (pic_labels s)"
    by simp
next
  note f = load_wallpapers_failed [where api = api and s = s, OF assms]
  fix m
  assume "r = Inl (JSONDecodeError m)"
  with f show "\<exists>s'. load_wallpapers api s = Done s' \<and> wallpaper_data s' = []
                  \<and> dialogs s' = dialogs s @ [Dialog Critical InvalidJson]
                  \<and> pic_labels s' = map (\<lambda>_. NoData) (pic_labels s)"
    by simp
next
  note f = load_wallpapers_failed [where api = api and s = s, OF assms]
  fix b
  assume "r = Inr b
              \<and> \<not> (eq_zero (case b_code b of None \<Rightarrow> PNone | Some c \<Rightarrow> c) \<and> b_data b \<noteq> None)"
  with f show "\<exists>s'. load_wallpapers api s = Done s' \<and> wallpaper_data s' = []
                  \<and> dialogs s' = dialogs s @
                       [Dialog Critical (ApiReturnedError (map_option py_str (b_msg b)))]
                  \<and> pic_labels s' = map (\<lambda>_. NoData) (pic_labels s)"
    by simp
qed

theorem load_wallpapers_error_clears_listing_witness:
  "(\<exists>s'. load_wallpapers api_down started_five = Done s' \<and> wallpaper_data s' = []
         \<and> dialogs s' = [Dialog Critical (CannotConnect ''timed out'')]
         \<and> pic_labels s' = [NoData, NoData, NoData])
   \<and> (\<exists>s'. load_wallpapers api_refuses started_five = Done s' \<and> wallpaper_data s' = []
         \<and> dialogs s' = [Dialog Critical (ApiReturnedError (Some ''bad source''))]
         \<and> pic_labels s' = [NoData, NoData, NoData])"
proof -
  have a: "api_down (api_url (sort_combo started_five)) = Inl (RequestException ''timed out'')"
    by (simp add: api_down_def)
  have b: "api_refuses (api_url (sort_combo started_five)) =
      Inr \<lparr>b_code = Some (PInt 1), b_msg = Some (PStr ''bad source''), b_data = None\<rparr>"
    by (simp add: api_refuses_def)
  show ?thesis
    using load_wallpapers_error_clears_listing [where api = api_down and s = started_five, OF a]
      load_wallpapers_error_clears_listing [where api = api_refuses and s = started_five, OF b]
    by (simp add: started_five_eq)
qed

text \<open>
  C10. On each of these three paths \<^verbatim>\<open>load_wallpapers\<close> leaves the current page, the
  source, the download directory and the files as they were and empties the listing, so
  a page index that was not zero stays with an empty listing. A state with an empty
  listing at page 1 is reachable: start without network, then press the button for the
  next page.
\<close>

theorem load_wallpapers_error_keeps_page:
  assumes "api (api_url (sort_combo s)) = r"
    and "(\<exists>m. r = Inl (RequestException m)) \<or> (\<exists>m. r = Inl (JSONDecodeError m))
         \<or> (\<exists>b. r = Inr b
               \<and> \<not> (eq_zero (case b_code b of None \<Rightarrow> PNone | Some c \<Rightarrow> c) \<and> b_data b \<noteq> None))"
  shows "(\<exists>s'. load_wallpapers api s = Done s' \<and> current_page s' = current_page s
            \<and> wallpaper_data s' = [] \<and> sort_combo s' = sort_combo s
            \<and> download_path s' = download_path s \<and> files s' = files s
            \<and> (current_page s \<noteq> 0 \<longrightarrow> wallpaper_data s' = [] \<and> current_page s' \<noteq> 0))
     \<and> reachable offline_page1 \<and> wallpaper_data offline_page1 = []
     \<and> current_page offline_page1 = 1"
proof -
  note f = load_wallpapers_failed [where api = api and s = s, OF assms(1)]
  from assms(2) consider (net) m where "r = Inl (RequestException m)"
    | (json) m where "r = Inl (JSONDecodeError m)"
    | (refused) b where "r = Inr b"
        and "\<not> (eq_zero (case b_code b of None \<Rightarrow> PNone | Some c \<Rightarrow> c) \<and> b_data b \<noteq> None)"
    by blast
  then have "\<exists>s'. load_wallpapers api s = Done s' \<and> current_page s' = current_page s
            \<and> wallpaper_data s' = [] \<and> sort_combo s' = sort_combo s
            \<and> download_path s' = download_path s \<and> files s' = files s
            \<and> (current_page s \<noteq> 0 \<longrightarrow> wallpaper_data s' = [] \<and> current_page s' \<noteq> 0)"
  proof cases
    case net
    with f show ?thesis by simp
  next
    case json
    with f show ?thesis by simp
  next
    case refused
    with f show ?thesis by simp
  qed
  moreover have "wallpaper_data offline_page1 = []" "current_page offline_page1 = 1"
    by (simp_all add: offline_page1_def started_offline_eq change_page_def update_ui_cleared)
  ultimately show ?thesis using offline_page1_reachable by simp
qed

theorem load_wallpapers_error_keeps_page_witness:
  "api_down (api_url (sort_combo five_page1)) = Inl (RequestException ''timed out'')
   \<and> current_page five_page1 = 1 \<and> length (wallpaper_data five_page1) = 5
   \<and> (\<exists>s'. load_wallpapers api_down five_page1 = Done s' \<and> current_page s' = 1
         \<and> wallpaper_data s' = [])"
proof -
  have a: "api_down (api_url (sort_combo five_page1)) = Inl (RequestException ''timed out'')"
    by (simp add: api_down_def)
  have k: "(\<exists>m. (Inl (RequestException ''timed out'') :: exc + body) = Inl (RequestException m))
      \<or> (\<exists>m. (Inl (RequestException ''timed out'') :: exc + body) = Inl (JSONDecodeError m))
      \<or> (\<exists>b. (Inl (RequestException ''timed out'') :: exc + body) = Inr b
            \<and> \<not> (eq_zero (case b_code b of None \<Rightarrow> PNone | Some c \<Rightarrow> c) \<and> b_data b \<noteq> None))"
    by simp
  have p: "current_page five_page1 = 1" "length (wallpaper_data five_page1) = 5"
    by (simp_all add: example_defs Let_def)
  show ?thesis
    using load_wallpapers_error_keeps_page [where api = api_down and s = five_page1, OF a k] a p by auto
qed

section \<open>Changing the source\<close>

text \<open>
  C8. \<^verbatim>\<open>sort_changed\<close> sets the current page to 0 and then runs \<^verbatim>\<open>load_wallpapers\<close>
  from that state, so the request for the new listing is made at page 0. Whatever the
  request gives, the current page is 0 afterwards; when \<^verbatim>\<open>sort_changed\<close> returns, the
  page label shows 1 and the window starts at the first record of the listing, whose
  identifier and slot are what is shown.
\<close>

theorem sort_changed_resets_page:
  "current_page (state_of (sort_changed text api s)) = 0
   \<and> sort_changed text api s = load_wallpapers api (s\<lparr>current_page := 0\<rparr>)
   \<and> (\<forall>s'. sort_changed text api s = Done s' \<longrightarrow>
         page_label s' = 1
         \<and> (\<forall>i. window_record s' i = wallpaper_data s' ! i)
         \<and> (length (pic_labels s) = 3 \<and> wallpaper_data s' \<noteq> [] \<longrightarrow>
              name_label s' = py_str (dict_get_default (wallpaper_data s' ! 0) ''id'' (PStr ''N/A''))
              \<and> pic_labels s' ! 0 =
                  (if truthy (dict_get (wallpaper_data s' ! 0) ''url'') then Loading else InvalidUrl)))"
proof (intro conjI allI impI)
  show pg: "current_page (state_of (sort_changed text api s)) = 0"
    by (simp add: sort_changed_def load_wallpapers_frame)
  show "sort_changed text api s = load_wallpapers api (s\<lparr>current_page := 0\<rparr>)"
    by (simp add: sort_changed_def)
  fix s'
  assume d: "sort_changed text api s = Done s'"
  then have lw: "load_wallpapers api (s\<lparr>current_page := 0\<rparr>) = Done s'"
    by (simp add: sort_changed_def)
  from load_wallpapers_page_label [OF lw] show "page_label s' = 1" by simp
  have "current_page s' = 0" using pg d by simp
  then show "window_record s' i = wallpaper_data s' ! i" for i
    by (simp add: window_record_def)
  assume "length (pic_labels s) = 3 \<and> wallpaper_data s' \<noteq> []"
  then have "wallpaper_data s' \<noteq> []" "length (pic_labels (s\<lparr>current_page := 0\<rparr>)) = 3"
    "current_page (s\<lparr>current_page := 0\<rparr>) = 0"
    by simp_all
  from load_wallpapers_first_record [OF lw this]
  show "name_label s' = py_str (dict_get_default (wallpaper_data s' ! 0) ''id'' (PStr ''N/A''))"
    and "pic_labels s' ! 0 =
                  (if truthy (dict_get (wallpaper_data s' ! 0) ''url'') then Loading else InvalidUrl)"
    by simp_all
qed

theorem sort_changed_resets_page_witness:
  "current_page five_page1 = 1
   \<and> sort_changed ''Pexels'' api_five (five_page1\<lparr>sort_combo := ''Pexels''\<rparr>) =
       Done (started_five\<lparr>sort_combo := ''Pexels'', source_label := ''Pexels'',
               image_threads := image_threads five_page1 @ image_threads started_five\<rparr>)
   \<and> current_page (state_of (sort_changed ''Pexels'' api_five (five_page1\<lparr>sort_combo := ''Pexels''\<rparr>))) = 0
   \<and> page_label (state_of (sort_changed ''Pexels'' api_five (five_page1\<lparr>sort_combo := ''Pexels''\<rparr>))) = 1"
proof -
  let ?s = "five_page1\<lparr>sort_combo := ''Pexels''\<rparr>"
  have p: "current_page five_page1 = 1"
    by (simp add: example_defs Let_def)
  have e: "sort_changed ''Pexels'' api_five ?s =
       Done (started_five\<lparr>sort_combo := ''Pexels'', source_label := ''Pexels'',
               image_threads := image_threads five_page1 @ image_threads started_five\<rparr>)"
    by (simp add: sort_changed_def example_defs Let_def)
  note t = sort_changed_resets_page [of "''Pexels''" api_five ?s]
  have c1: "current_page (state_of (sort_changed ''Pexels'' api_five ?s)) = 0"
    by (rule t [THEN conjunct1])
  have c3: "page_label (state_of (sort_changed ''Pexels'' api_five ?s)) = 1"
    using t [THEN conjunct2, THEN conjunct2, rule_format, OF e, THEN conjunct1]
    by (simp only: e state_of.simps)
  show ?thesis
    by (intro conjI) (rule p e c1 c3)+
qed


section \<open>Thumbnails\<close>

text \<open>
  C9. For a slot index \<open>i\<close> of 0, 1 or 2, \<^verbatim>\<open>image_error\<close> puts the "loading failed"
  text with the first 20 characters of the message into slot \<open>i\<close>, drops the first
  worker thread that has ended from the list of threads, and changes nothing else:
  every other slot, the current page, the listing, the source and the download directory
  are as before.
\<close>

theorem image_error_touches_one_slot:
  assumes "length (pic_labels s) = 3" and "i < 3"
  shows "image_error (int i) m s =
           Done (s\<lparr>pic_labels := (pic_labels s)[i := LoadFailed (take 20 m)],
                   image_threads := remove_first_finished (image_threads s)\<rparr>)
     \<and> (\<forall>j. j \<noteq> i \<longrightarrow> pic_labels (state_of (image_error (int i) m s)) ! j = pic_labels s ! j)
     \<and> pic_labels (state_of (image_error (int i) m s)) ! i = LoadFailed (take 20 m)
     \<and> current_page (state_of (image_error (int i) m s)) = current_page s
     \<and> wallpaper_data (state_of (image_error (int i) m s)) = wallpaper_data s
     \<and> sort_combo (state_of (image_error (int i) m s)) = sort_combo s
     \<and> download_path (state_of (image_error (int i) m s)) = download_path s"
  using assms by (simp add: image_error_slot)

theorem image_error_touches_one_slot_witness:
  "length (pic_labels started_five) = 3 \<and> (1::nat) < 3
   \<and> image_error 1 ''Invalid image data'' started_five =
       Done (started_five\<lparr>pic_labels := [Loading, LoadFailed ''Invalid image data'', Loading]\<rparr>)"
proof -
  have l: "length (pic_labels started_five) = 3" by (simp add: started_five_eq)
  have i: "(1::nat) < 3" by simp
  show ?thesis
    using image_error_touches_one_slot [OF l i, of "''Invalid image data''"] l
    by (simp add: started_five_eq)
qed


section \<open>The invariant of the window start\<close>




end
